theory Spec2Isabelle
  imports Main
begin

section \<open>Data model\<close>

text \<open>
  A job as the dashboard reads it (\<^verbatim>\<open>App.jsx\<close>, \<^verbatim>\<open>JobDetails.jsx\<close>): the identifier and
  the four status fields. Statuses are JavaScript strings and the code compares them with
  string literals, so they are strings here as well; a status outside the vocabulary
  (or an absent field) behaves like any string that equals none of the literals.
\<close>

type_synonym job_id = string

record job =
  job_id :: job_id
  topic :: string
  status :: string
  script_status :: string
  audio_status :: string
  video_status :: string

section \<open>Stage model\<close>

text \<open>\<^verbatim>\<open>const processingStates = new Set(["processing", "rerendering"]);\<close>\<close>

definition processingStates :: "string set" where
  "processingStates = {''processing'', ''rerendering''}"

text \<open>\<^verbatim>\<open>const pendingStates = new Set(["queued"]);\<close>\<close>

definition pendingStates :: "string set" where
  "pendingStates = {''queued''}"

text \<open>The \<^verbatim>\<open>shouldPoll\<close> expression of the polling effect (\<^verbatim>\<open>Set.has\<close> is membership).\<close>

definition shouldPoll :: "job \<Rightarrow> bool" where
  "shouldPoll selectedJob \<longleftrightarrow>
     status selectedJob \<in> processingStates \<or>
     script_status selectedJob \<in> processingStates \<or>
     audio_status selectedJob \<in> processingStates \<or>
     video_status selectedJob \<in> processingStates \<or>
     script_status selectedJob \<in> pendingStates \<or>
     audio_status selectedJob \<in> pendingStates \<or>
     video_status selectedJob \<in> pendingStates"

text \<open>
  \<^verbatim>\<open>(import.meta.env.VITE_ENABLE_IMAGE_GENERATION ?? "true") !== "false"\<close>: the variable is
  a string or undefined (\<open>None\<close>).
\<close>

definition videoFeatureEnabled :: "string option \<Rightarrow> bool" where
  "videoFeatureEnabled env \<longleftrightarrow> (case env of None \<Rightarrow> ''true'' | Some v \<Rightarrow> v) \<noteq> ''false''"

text \<open>The \<^verbatim>\<open>audioDisabled\<close> and \<^verbatim>\<open>videoDisabled\<close> expressions of \<^verbatim>\<open>JobDetails\<close>.\<close>

definition audioDisabled :: "job \<Rightarrow> bool \<Rightarrow> bool" where
  "audioDisabled job audioLoading \<longleftrightarrow>
     script_status job \<noteq> ''completed'' \<or>
     audio_status job = ''processing'' \<or>
     audioLoading"

definition videoDisabled :: "string option \<Rightarrow> job \<Rightarrow> bool \<Rightarrow> bool" where
  "videoDisabled env job videoLoading \<longleftrightarrow>
     \<not> videoFeatureEnabled env \<or>
     audio_status job \<noteq> ''completed'' \<or>
     video_status job = ''processing'' \<or>
     videoLoading"

section \<open>The dashboard state and its asynchronous handlers\<close>

text \<open>The ten \<^verbatim>\<open>useState\<close> cells of \<^verbatim>\<open>App\<close>; \<open>None\<close> is JavaScript's \<^verbatim>\<open>null\<close>.\<close>

record app_state =
  jobs :: "job list"
  selectedJobId :: "job_id option"
  selectedJob :: "job option"
  loading :: bool
  feedback :: string
  showModal :: bool
  savingEdit :: bool
  refreshing :: bool
  audioLoading :: bool
  videoLoading :: bool

text \<open>The payloads of \<^verbatim>\<open>JobForm\<close> and \<^verbatim>\<open>EditModal\<close>.\<close>

record job_params =
  p_topic :: string
  p_style :: string
  p_length :: int

record edits =
  e_script :: string
  e_transcript :: string
  e_image_prompts :: string

text \<open>The calls of \<^verbatim>\<open>api.js\<close>, one constructor per exported function the handlers use.\<close>

datatype request =
    CreateJob job_params
  | ListJobs
  | FetchJob job_id
  | UpdateJob job_id edits
  | RerenderJob job_id
  | RequestAudio job_id "string option"
  | RequestVideo job_id

text \<open>How a promise settles: rejected (the \<^verbatim>\<open>await\<close> throws), or resolved with data.\<close>

datatype 'a outcome = Rejected | Resolved 'a

text \<open>
  An \<^verbatim>\<open>async\<close> function is a resumption: a run of state updates (\<^verbatim>\<open>setX(v)\<close>) up to the
  next \<^verbatim>\<open>await\<close>, where it is parked with the request it issued until that promise
  settles. Three kinds of \<^verbatim>\<open>await\<close> occur, by what the promise carries: a job
  (\<^verbatim>\<open>createJob\<close>, \<^verbatim>\<open>fetchJob\<close>), the job list (\<^verbatim>\<open>listJobs\<close>), or data the handler ignores
  (\<^verbatim>\<open>updateJob\<close>, \<^verbatim>\<open>rerenderJob\<close>, \<^verbatim>\<open>requestAudio\<close>, \<^verbatim>\<open>requestVideo\<close>).
\<close>

datatype proc =
    Halt
  | Set "app_state \<Rightarrow> app_state" proc
  | AwaitJob request "job outcome \<Rightarrow> proc"
  | AwaitList request "job list outcome \<Rightarrow> proc"
  | AwaitAck request "unit outcome \<Rightarrow> proc"

text \<open>\<^verbatim>\<open>!selectedJobId\<close>: \<^verbatim>\<open>null\<close> and the empty string are falsy.\<close>

definition falsy :: "job_id option \<Rightarrow> bool" where
  "falsy i \<longleftrightarrow> (case i of None \<Rightarrow> True | Some v \<Rightarrow> v = [])"

text \<open>
  \<^verbatim>\<open>refreshJobs(resetSelection = true)\<close>, followed by \<open>k\<close>, what its caller does after
  \<^verbatim>\<open>await refreshJobs(...)\<close>. The function catches its own error, so the caller always
  continues.
\<close>

definition refreshJobs :: "bool \<Rightarrow> proc \<Rightarrow> proc" where
  "refreshJobs resetSelection k =
     AwaitList ListJobs (\<lambda>r. case r of
         Resolved items \<Rightarrow>
           Set (\<lambda>s. s\<lparr>jobs := items\<rparr>)
             (case items of
                item0 # _ \<Rightarrow>
                  if resetSelection
                  then Set (\<lambda>s. s\<lparr>selectedJobId := Some (job_id item0)\<rparr>) k
                  else k
              | [] \<Rightarrow> k)
       | Rejected \<Rightarrow> Set (\<lambda>s. s\<lparr>feedback := ''Unable to load jobs from the API.''\<rparr>) k)"

text \<open>The effect on \<^verbatim>\<open>[selectedJobId]\<close>, run when the identifier has changed.\<close>

definition selectionEffect :: "job_id option \<Rightarrow> proc" where
  "selectionEffect sid =
     (if falsy sid then Halt
      else AwaitJob (FetchJob (the sid)) (\<lambda>r. case r of
          Resolved data \<Rightarrow> Set (\<lambda>s. s\<lparr>selectedJob := Some data\<rparr>) Halt
        | Rejected \<Rightarrow> Set (\<lambda>s. s\<lparr>feedback := ''Failed to fetch job details.''\<rparr>) Halt))"

text \<open>The callback of the polling interval; \<^verbatim>\<open>selectedJob\<close> is the one the effect closed over.\<close>

definition pollTick :: "job \<Rightarrow> proc" where
  "pollTick selJob =
     AwaitJob (FetchJob (job_id selJob)) (\<lambda>r. case r of
         Resolved data \<Rightarrow> Set (\<lambda>s. s\<lparr>selectedJob := Some data\<rparr>) (refreshJobs False Halt)
       | Rejected \<Rightarrow> Halt)"

definition handleCreateJob :: "job_params \<Rightarrow> proc" where
  "handleCreateJob payload =
     Set (\<lambda>s. s\<lparr>loading := True\<rparr>)
       (AwaitJob (CreateJob payload) (\<lambda>r. case r of
           Resolved job \<Rightarrow>
             Set (\<lambda>s. s\<lparr>feedback := ''Job created. Script generation started.''\<rparr>)
               (refreshJobs False
                 (Set (\<lambda>s. s\<lparr>selectedJobId := Some (job_id job)\<rparr>)
                   (Set (\<lambda>s. s\<lparr>selectedJob := Some job\<rparr>)
                     (Set (\<lambda>s. s\<lparr>loading := False\<rparr>) Halt))))
         | Rejected \<Rightarrow>
             Set (\<lambda>s. s\<lparr>feedback := ''Failed to create job. Check API logs.''\<rparr>)
               (Set (\<lambda>s. s\<lparr>loading := False\<rparr>) Halt)))"

text \<open>
  \<^verbatim>\<open>handleSaveEdits\<close>: one \<^verbatim>\<open>try\<close> around all its awaits, one \<^verbatim>\<open>catch\<close>, and the
  \<^verbatim>\<open>finally\<close> that clears the flag. \<open>sid\<close> is the \<^verbatim>\<open>selectedJobId\<close> of the render the
  handler belongs to.
\<close>

definition saveFailed :: proc where
  "saveFailed =
     Set (\<lambda>s. s\<lparr>feedback := ''Failed to save edits.''\<rparr>)
       (Set (\<lambda>s. s\<lparr>savingEdit := False\<rparr>) Halt)"

definition handleSaveEdits :: "job_id option \<Rightarrow> edits \<Rightarrow> proc" where
  "handleSaveEdits sid payload =
     (if falsy sid then Halt
      else
        Set (\<lambda>s. s\<lparr>savingEdit := True\<rparr>)
          (AwaitAck (UpdateJob (the sid) payload) (\<lambda>r. case r of
              Resolved _ \<Rightarrow>
                AwaitAck (RerenderJob (the sid)) (\<lambda>r. case r of
                    Resolved _ \<Rightarrow>
                      Set (\<lambda>s. s\<lparr>feedback := ''Edits saved. Rerender triggered.''\<rparr>)
                        (Set (\<lambda>s. s\<lparr>showModal := False\<rparr>)
                          (AwaitJob (FetchJob (the sid)) (\<lambda>r. case r of
                              Resolved updated \<Rightarrow>
                                Set (\<lambda>s. s\<lparr>selectedJob := Some updated\<rparr>)
                                  (refreshJobs False
                                    (Set (\<lambda>s. s\<lparr>savingEdit := False\<rparr>) Halt))
                            | Rejected \<Rightarrow> saveFailed)))
                  | Rejected \<Rightarrow> saveFailed)
            | Rejected \<Rightarrow> saveFailed)))"

definition handleRefresh :: "job_id option \<Rightarrow> proc" where
  "handleRefresh sid =
     (if falsy sid then Halt
      else
        Set (\<lambda>s. s\<lparr>refreshing := True\<rparr>)
          (AwaitJob (FetchJob (the sid)) (\<lambda>r. case r of
              Resolved updated \<Rightarrow>
                Set (\<lambda>s. s\<lparr>selectedJob := Some updated\<rparr>)
                  (refreshJobs False (Set (\<lambda>s. s\<lparr>refreshing := False\<rparr>) Halt))
            | Rejected \<Rightarrow>
                Set (\<lambda>s. s\<lparr>feedback := ''Failed to refresh job.''\<rparr>)
                  (Set (\<lambda>s. s\<lparr>refreshing := False\<rparr>) Halt))))"

definition audioFailed :: proc where
  "audioFailed =
     Set (\<lambda>s. s\<lparr>feedback := ''Failed to request audio. Check API logs.''\<rparr>)
       (Set (\<lambda>s. s\<lparr>audioLoading := False\<rparr>) Halt)"

definition handleRequestAudio :: "job_id option \<Rightarrow> string option \<Rightarrow> proc" where
  "handleRequestAudio sid voice =
     (if falsy sid then Halt
      else
        Set (\<lambda>s. s\<lparr>audioLoading := True\<rparr>)
          (AwaitAck (RequestAudio (the sid) voice) (\<lambda>r. case r of
              Resolved _ \<Rightarrow>
                AwaitJob (FetchJob (the sid)) (\<lambda>r. case r of
                    Resolved updated \<Rightarrow>
                      Set (\<lambda>s. s\<lparr>selectedJob := Some updated\<rparr>)
                        (refreshJobs False
                          (Set (\<lambda>s. s\<lparr>feedback := ''Audio generation requested.''\<rparr>)
                            (Set (\<lambda>s. s\<lparr>audioLoading := False\<rparr>) Halt)))
                  | Rejected \<Rightarrow> audioFailed)
            | Rejected \<Rightarrow> audioFailed)))"

definition videoFailed :: proc where
  "videoFailed =
     Set (\<lambda>s. s\<lparr>feedback := ''Failed to request video. Check API logs.''\<rparr>)
       (Set (\<lambda>s. s\<lparr>videoLoading := False\<rparr>) Halt)"

definition handleRequestVideo :: "job_id option \<Rightarrow> proc" where
  "handleRequestVideo sid =
     (if falsy sid then Halt
      else
        Set (\<lambda>s. s\<lparr>videoLoading := True\<rparr>)
          (AwaitAck (RequestVideo (the sid)) (\<lambda>r. case r of
              Resolved _ \<Rightarrow>
                AwaitJob (FetchJob (the sid)) (\<lambda>r. case r of
                    Resolved updated \<Rightarrow>
                      Set (\<lambda>s. s\<lparr>selectedJob := Some updated\<rparr>)
                        (refreshJobs False
                          (Set (\<lambda>s. s\<lparr>feedback := ''Video generation requested.''\<rparr>)
                            (Set (\<lambda>s. s\<lparr>videoLoading := False\<rparr>) Halt)))
                  | Rejected \<Rightarrow> videoFailed)
            | Rejected \<Rightarrow> videoFailed)))"

section \<open>The event loop\<close>

text \<open>
  The running dashboard: the state cells, the handlers parked at an \<^verbatim>\<open>await\<close> (each one
  an in-flight request with the code that resumes when it settles), and the log of every
  request sent so far.
\<close>

record sys =
  ui :: app_state
  inflight :: "proc list"
  sent :: "request list"

text \<open>Run the state updates of a handler up to its next \<^verbatim>\<open>await\<close>, or to its end.\<close>

fun exec :: "proc \<Rightarrow> app_state \<Rightarrow> app_state \<times> proc" where
  "exec (Set f p) s = exec p (f s)"
| "exec Halt s = (s, Halt)"
| "exec (AwaitJob q k) s = (s, AwaitJob q k)"
| "exec (AwaitList q k) s = (s, AwaitList q k)"
| "exec (AwaitAck q k) s = (s, AwaitAck q k)"

fun parked :: "proc \<Rightarrow> proc list" where
  "parked (AwaitJob q k) = [AwaitJob q k]"
| "parked (AwaitList q k) = [AwaitList q k]"
| "parked (AwaitAck q k) = [AwaitAck q k]"
| "parked _ = []"

fun issued :: "proc \<Rightarrow> request list" where
  "issued (AwaitJob q k) = [q]"
| "issued (AwaitList q k) = [q]"
| "issued (AwaitAck q k) = [q]"
| "issued _ = []"

text \<open>
  One turn of the event loop: the code \<open>p\<close> runs to its next \<^verbatim>\<open>await\<close>, React renders, and
  the effect on \<^verbatim>\<open>[selectedJobId]\<close> runs if that cell has changed. Requests are logged in
  the order they are issued.
\<close>

definition launch :: "proc \<Rightarrow> sys \<Rightarrow> sys" where
  "launch p s =
     (let (u, q) = exec p (ui s);
          e = (if selectedJobId u \<noteq> selectedJobId (ui s)
               then selectionEffect (selectedJobId u) else Halt)
      in s\<lparr>ui := u,
           inflight := inflight s @ parked q @ parked e,
           sent := sent s @ issued q @ issued e\<rparr>)"

text \<open>
  What can happen next: a click (the list's \<^verbatim>\<open>onSelect\<close>, the form, the modal, the
  buttons of \<^verbatim>\<open>JobDetails\<close>), a tick of the polling interval, or the settling of the
  in-flight request at an index, with what the server answered.
\<close>

datatype event =
    Select job_id
  | ClickCreate job_params
  | ClickSave edits
  | ClickRefresh
  | ClickAudio "string option"
  | ClickVideo
  | OpenModal
  | CloseModal
  | PollTick
  | SettleJob nat "job outcome"
  | SettleList nat "job list outcome"
  | SettleAck nat "unit outcome"

definition unpark :: "nat \<Rightarrow> sys \<Rightarrow> sys" where
  "unpark i s = s\<lparr>inflight := take i (inflight s) @ drop (Suc i) (inflight s)\<rparr>"

text \<open>
  \<open>None\<close>: the event cannot happen in this state (no such in-flight request, a reply of
  the wrong kind, or no polling interval: the interval exists only while \<^verbatim>\<open>selectedJob\<close>
  is set and \<^verbatim>\<open>shouldPoll\<close> holds).
\<close>

fun step :: "sys \<Rightarrow> event \<Rightarrow> sys option" where
  "step s (Select i) = Some (launch (Set (\<lambda>u. u\<lparr>selectedJobId := Some i\<rparr>) Halt) s)"
| "step s (ClickCreate payload) = Some (launch (handleCreateJob payload) s)"
| "step s (ClickSave payload) =
     Some (launch (handleSaveEdits (selectedJobId (ui s)) payload) s)"
| "step s ClickRefresh = Some (launch (handleRefresh (selectedJobId (ui s))) s)"
| "step s (ClickAudio voice) =
     Some (launch (handleRequestAudio (selectedJobId (ui s)) voice) s)"
| "step s ClickVideo = Some (launch (handleRequestVideo (selectedJobId (ui s))) s)"
| "step s OpenModal = Some (launch (Set (\<lambda>u. u\<lparr>showModal := True\<rparr>) Halt) s)"
| "step s CloseModal = Some (launch (Set (\<lambda>u. u\<lparr>showModal := False\<rparr>) Halt) s)"
| "step s PollTick =
     (case selectedJob (ui s) of
        None \<Rightarrow> None
      | Some j \<Rightarrow> if shouldPoll j then Some (launch (pollTick j) s) else None)"
| "step s (SettleJob i r) =
     (if i < length (inflight s)
      then (case inflight s ! i of
              AwaitJob q k \<Rightarrow> Some (launch (k r) (unpark i s))
            | _ \<Rightarrow> None)
      else None)"
| "step s (SettleList i r) =
     (if i < length (inflight s)
      then (case inflight s ! i of
              AwaitList q k \<Rightarrow> Some (launch (k r) (unpark i s))
            | _ \<Rightarrow> None)
      else None)"
| "step s (SettleAck i r) =
     (if i < length (inflight s)
      then (case inflight s ! i of
              AwaitAck q k \<Rightarrow> Some (launch (k r) (unpark i s))
            | _ \<Rightarrow> None)
      else None)"

fun run :: "sys \<Rightarrow> event list \<Rightarrow> sys option" where
  "run s [] = Some s"
| "run s (e # es) = (case step s e of None \<Rightarrow> None | Some t \<Rightarrow> run t es)"

text \<open>
  The initial values of the \<^verbatim>\<open>useState\<close> cells, and the dashboard after its first
  render: the mount effect has called \<^verbatim>\<open>refreshJobs()\<close>, the effect on \<^verbatim>\<open>[selectedJobId]\<close>
  has returned at once (\<^verbatim>\<open>null\<close>).
\<close>

definition initial :: app_state where
  "initial = \<lparr>jobs = [], selectedJobId = None, selectedJob = None, loading = False,
     feedback = [], showModal = False, savingEdit = False, refreshing = False,
     audioLoading = False, videoLoading = False\<rparr>"

definition mounted :: sys where
  "mounted = launch (refreshJobs True Halt) \<lparr>ui = initial, inflight = [], sent = []\<rparr>"

text \<open>\<^verbatim>\<open>activeJob\<close>: \<^verbatim>\<open>jobs.find((job) => job.id === selectedJobId) ?? null\<close>, the list's entry
  for the selection.\<close>

definition activeJob :: "app_state \<Rightarrow> job option" where
  "activeJob u = find (\<lambda>job. Some (job_id job) = selectedJobId u) (jobs u)"

section \<open>A server with a fixed state\<close>

text \<open>
  A server whose state does not change answers a request the same way every time: its
  answers are functions of the request alone, one per kind of reply.
\<close>

record server =
  on_job :: "request \<Rightarrow> job outcome"
  on_list :: "request \<Rightarrow> job list outcome"
  on_ack :: "request \<Rightarrow> unit outcome"

fun answer :: "server \<Rightarrow> nat \<Rightarrow> proc \<Rightarrow> event option" where
  "answer srv i (AwaitJob q k) = Some (SettleJob i (on_job srv q))"
| "answer srv i (AwaitList q k) = Some (SettleList i (on_list srv q))"
| "answer srv i (AwaitAck q k) = Some (SettleAck i (on_ack srv q))"
| "answer srv i _ = None"

text \<open>
  Let the server settle, one after the other, every request parked at index \<open>n\<close> or
  later (the ones a handler started from a state with \<open>n\<close> requests in flight has
  issued), until none is left. \<open>None\<close>: the fuel ran out first.
\<close>

fun finish :: "nat \<Rightarrow> nat \<Rightarrow> server \<Rightarrow> sys \<Rightarrow> sys option" where
  "finish fuel n srv s =
     (if length (inflight s) \<le> n then Some s
      else (case fuel of
              0 \<Rightarrow> None
            | Suc fuel' \<Rightarrow>
                (case answer srv n (inflight s ! n) of
                   None \<Rightarrow> None
                 | Some e \<Rightarrow>
                     (case step s e of
                        None \<Rightarrow> None
                      | Some t \<Rightarrow> finish fuel' n srv t))))"

text \<open>One whole call of \<^verbatim>\<open>handleRefresh\<close>: the click, then its requests until it returns.\<close>

definition refresh :: "nat \<Rightarrow> server \<Rightarrow> sys \<Rightarrow> sys option" where
  "refresh fuel srv s =
     (case step s ClickRefresh of
        None \<Rightarrow> None
      | Some t \<Rightarrow> finish fuel (length (inflight s)) srv t)"

section \<open>The audio preview of the details panel\<close>

text \<open>
  The audio effect of \<^verbatim>\<open>JobDetails\<close>, on \<^verbatim>\<open>[job?.id, job?.audio_status]\<close>. An object URL
  is the number \<^verbatim>\<open>URL.createObjectURL\<close> gave it: the browser never hands out the same URL
  twice, and \<open>blobs\<close> counts the URLs created so far. Every run of the effect has its own
  \<^verbatim>\<open>let objectUrl\<close>; the cleanup of a run reads that variable once, when the run is
  replaced, and nothing reads it afterwards, so the state keeps the variable of the
  current run only. \<open>fetching\<close> lists the runs whose \<^verbatim>\<open>fetchArtifact\<close> has not settled;
  \<open>revoked\<close> logs the calls of \<^verbatim>\<open>URL.revokeObjectURL\<close>.
\<close>

type_synonym url = nat

record details =
  audioUrl :: "url option"
  deps :: "job_id option \<times> string option"
  objectUrl :: "url option"
  effect_run :: nat
  fetching :: "nat list"
  blobs :: nat
  revoked :: "url list"

text \<open>\<^verbatim>\<open>return () => { if (objectUrl) URL.revokeObjectURL(objectUrl); }\<close>\<close>

definition cleanup :: "details \<Rightarrow> details" where
  "cleanup s = (case objectUrl s of None \<Rightarrow> s | Some u \<Rightarrow> s\<lparr>revoked := revoked s @ [u]\<rparr>)"

definition audioDeps :: "job option \<Rightarrow> job_id option \<times> string option" where
  "audioDeps job = (map_option job_id job, map_option audio_status job)"

text \<open>The body of the effect: a new run, with its own \<^verbatim>\<open>objectUrl\<close>, undefined at first.\<close>

definition audioEffect :: "job option \<Rightarrow> details \<Rightarrow> details" where
  "audioEffect job s =
     (let s1 = s\<lparr>deps := audioDeps job, effect_run := Suc (effect_run s), objectUrl := None\<rparr>
      in if map_option audio_status job = Some ''completed''
         then s1\<lparr>fetching := fetching s1 @ [effect_run s1]\<rparr>
         else s1\<lparr>audioUrl := None\<rparr>)"

text \<open>
  A render with the \<^verbatim>\<open>job\<close> prop (React cleans the old run up and runs the effect again
  when a dependency has changed), and the settling of the \<^verbatim>\<open>fetchArtifact\<close> of run \<open>r\<close>:
  resolved (\<^verbatim>\<open>api.js\<close> creates the object URL, then \<^verbatim>\<open>objectUrl = url; setAudioUrl(url)\<close>,
  where \<^verbatim>\<open>objectUrl\<close> is the variable of run \<open>r\<close>) or rejected (\<^verbatim>\<open>setAudioUrl(null)\<close>).
\<close>

datatype details_event = Render "job option" | ArtifactResolved nat | ArtifactRejected nat

fun details_step :: "details \<Rightarrow> details_event \<Rightarrow> details" where
  "details_step s (Render job) =
     (if audioDeps job = deps s then s else audioEffect job (cleanup s))"
| "details_step s (ArtifactResolved r) =
     (if r \<in> set (fetching s)
      then s\<lparr>fetching := remove1 r (fetching s),
             blobs := Suc (blobs s),
             objectUrl := (if r = effect_run s then Some (blobs s) else objectUrl s),
             audioUrl := Some (blobs s)\<rparr>
      else s)"
| "details_step s (ArtifactRejected r) =
     (if r \<in> set (fetching s)
      then s\<lparr>fetching := remove1 r (fetching s), audioUrl := None\<rparr>
      else s)"

definition details_run :: "details \<Rightarrow> details_event list \<Rightarrow> details" where
  "details_run = foldl details_step"

text \<open>The panel after its first render: \<^verbatim>\<open>job\<close> is null, the effect has set \<^verbatim>\<open>audioUrl\<close>
  to null.\<close>

definition details_mounted :: details where
  "details_mounted = \<lparr>audioUrl = None, deps = (None, None), objectUrl = None, effect_run = 0,
     fetching = [], blobs = 0, revoked = []\<rparr>"

text \<open>Invariants of the panel, for the proofs below.\<close>

definition held_ok :: "details \<Rightarrow> bool" where
  "held_ok s \<longleftrightarrow>
     (\<forall>u \<in> set (revoked s). u < blobs s) \<and>
     (\<forall>u. objectUrl s = Some u \<longrightarrow>
        u < blobs s \<and> u \<notin> set (revoked s) \<and> snd (deps s) = Some ''completed'') \<and>
     (\<forall>r \<in> set (fetching s). r \<le> effect_run s) \<and>
     (effect_run s \<in> set (fetching s) \<longrightarrow> snd (deps s) = Some ''completed'')"

definition released :: "url \<Rightarrow> details \<Rightarrow> bool" where
  "released h s \<longleftrightarrow> count_list (revoked s) h = 1 \<and> h < blobs s \<and> objectUrl s \<noteq> Some h"

definition orphaned :: "url \<Rightarrow> details \<Rightarrow> bool" where
  "orphaned h s \<longleftrightarrow> h \<notin> set (revoked s) \<and> h < blobs s \<and> objectUrl s \<noteq> Some h"

section \<open>Sample data\<close>

definition jobA :: job where
  "jobA = \<lparr>job_id = ''A'', topic = ''Rise of AI'', status = ''queued'',
     script_status = ''queued'', audio_status = ''not_requested'',
     video_status = ''not_requested''\<rparr>"

definition jobA' :: job where
  "jobA' = \<lparr>job_id = ''A'', topic = ''Rise of AI'', status = ''processing'',
     script_status = ''processing'', audio_status = ''not_requested'',
     video_status = ''not_requested''\<rparr>"

definition jobB :: job where
  "jobB = \<lparr>job_id = ''B'', topic = ''Tides'', status = ''completed'',
     script_status = ''completed'', audio_status = ''completed'',
     video_status = ''completed''\<rparr>"

definition jobB' :: job where
  "jobB' = \<lparr>job_id = ''B'', topic = ''Tides'', status = ''rerendering'',
     script_status = ''completed'', audio_status = ''processing'',
     video_status = ''not_requested''\<rparr>"

definition jobD :: job where
  "jobD = \<lparr>job_id = ''D'', topic = ''Maps'', status = ''completed'',
     script_status = ''completed'', audio_status = ''completed'',
     video_status = ''not_requested''\<rparr>"

definition jobD' :: job where
  "jobD' = \<lparr>job_id = ''D'', topic = ''Maps'', status = ''processing'',
     script_status = ''completed'', audio_status = ''processing'',
     video_status = ''not_requested''\<rparr>"

definition params0 :: job_params where
  "params0 = \<lparr>p_topic = ''Rise of AI'', p_style = ''Documentary'', p_length = 180\<rparr>"

definition edits0 :: edits where
  "edits0 = \<lparr>e_script = ''s'', e_transcript = ''t'', e_image_prompts = ''{}''\<rparr>"

text \<open>The dashboard showing job A, nothing in flight.\<close>

definition viewingA :: sys where
  "viewingA = \<lparr>ui = initial\<lparr>jobs := [jobA, jobB], selectedJobId := Some ''A'',
       selectedJob := Some jobA\<rparr>, inflight = [], sent = [ListJobs, FetchJob ''A'']\<rparr>"

definition server0 :: server where
  "server0 = \<lparr>on_job = (\<lambda>q. Resolved jobA'), on_list = (\<lambda>q. Resolved [jobA', jobB]),
     on_ack = (\<lambda>q. Resolved ())\<rparr>"

section \<open>Properties of the stage model\<close>

text \<open>
  C1. \<^verbatim>\<open>shouldPoll\<close> holds exactly when the overall status is processing or rerendering, or
  one of the three stage statuses is processing, rerendering or queued. With the overall
  status set to queued the decision is that of the three stage fields alone: an overall
  queued does not trigger polling by itself.
\<close>

theorem shouldPoll_iff:
  "(shouldPoll j \<longleftrightarrow>
      status j \<in> {''processing'', ''rerendering''} \<or>
      script_status j \<in> {''processing'', ''rerendering'', ''queued''} \<or>
      audio_status j \<in> {''processing'', ''rerendering'', ''queued''} \<or>
      video_status j \<in> {''processing'', ''rerendering'', ''queued''})
   \<and> (shouldPoll (j\<lparr>status := ''queued''\<rparr>) \<longleftrightarrow>
      script_status j \<in> {''processing'', ''rerendering'', ''queued''} \<or>
      audio_status j \<in> {''processing'', ''rerendering'', ''queued''} \<or>
      video_status j \<in> {''processing'', ''rerendering'', ''queued''})"
  unfolding shouldPoll_def processingStates_def pendingStates_def
  by auto

text \<open>
  C9. The video button is enabled (\<^verbatim>\<open>videoDisabled\<close> is false) only if the feature flag
  is on, the audio stage is completed and the video stage is not processing; whenever the
  audio stage is not completed the button is disabled.
\<close>

theorem videoDisabled_only_if:
  "(\<not> videoDisabled env j busy \<longrightarrow>
      videoFeatureEnabled env \<and> audio_status j = ''completed'' \<and>
      video_status j \<noteq> ''processing'')
   \<and> (audio_status j \<noteq> ''completed'' \<longrightarrow> videoDisabled env j busy)"
  unfolding videoDisabled_def by auto

theorem videoDisabled_only_if_witness:
  "\<not> videoDisabled None
       \<lparr>job_id = ''j1'', topic = ''t'', status = ''processing'', script_status = ''completed'',
        audio_status = ''completed'', video_status = ''not_requested''\<rparr> False
   \<and> videoFeatureEnabled None
   \<and> videoDisabled None
       \<lparr>job_id = ''j1'', topic = ''t'', status = ''processing'', script_status = ''completed'',
        audio_status = ''processing'', video_status = ''not_requested''\<rparr> False"
  using videoDisabled_only_if [of None
       "\<lparr>job_id = ''j1'', topic = ''t'', status = ''processing'', script_status = ''completed'',
        audio_status = ''completed'', video_status = ''not_requested''\<rparr>" False]
    videoDisabled_only_if [of None
       "\<lparr>job_id = ''j1'', topic = ''t'', status = ''processing'', script_status = ''completed'',
        audio_status = ''processing'', video_status = ''not_requested''\<rparr>" False]
  by (simp add: videoDisabled_def videoFeatureEnabled_def)

section \<open>Properties of the handlers\<close>

text \<open>
  In the statements below a trace is a list of events given to \<open>run\<close>; a handler
  started in a state \<open>s\<close> parks its request behind the ones already in flight, at index
  \<open>length (inflight s)\<close>, and each request it issues next takes the same place.
\<close>

lemmas handler_defs = handleCreateJob_def handleSaveEdits_def handleRefresh_def
  handleRequestAudio_def handleRequestVideo_def refreshJobs_def selectionEffect_def
  pollTick_def saveFailed_def audioFailed_def videoFailed_def falsy_def

lemmas sample_defs = jobA_def jobA'_def jobB_def jobB'_def jobD_def jobD'_def params0_def
  edits0_def viewingA_def server0_def initial_def mounted_def

text \<open>The sample state \<open>viewingA\<close> is reached from the first render.\<close>

lemma viewingA_reachable:
  "run mounted [SettleList 0 (Resolved [jobA, jobB]), SettleJob 0 (Resolved jobA)] =
     Some viewingA"
  by (simp add: launch_def unpark_def handler_defs sample_defs)

subsection \<open>Handlers called with no selection\<close>

text \<open>
  C10. When no job is selected (\<^verbatim>\<open>selectedJobId\<close> is null), \<^verbatim>\<open>handleSaveEdits\<close>,
  \<^verbatim>\<open>handleRefresh\<close>, \<^verbatim>\<open>handleRequestAudio\<close> and \<^verbatim>\<open>handleRequestVideo\<close> do nothing at all:
  the state cells, the requests in flight and the log of requests sent are what they were.
\<close>

theorem empty_selection_noop:
  "selectedJobId (ui s) = None \<Longrightarrow>
     step s (ClickSave payload) = Some s \<and> step s ClickRefresh = Some s \<and>
     step s (ClickAudio voice) = Some s \<and> step s ClickVideo = Some s"
  by (simp add: handleSaveEdits_def handleRefresh_def handleRequestAudio_def
      handleRequestVideo_def falsy_def launch_def)

theorem empty_selection_noop_witness:
  "selectedJobId (ui mounted) = None \<and>
     step mounted (ClickSave edits0) = Some mounted \<and>
     step mounted ClickRefresh = Some mounted \<and>
     step mounted (ClickAudio None) = Some mounted \<and>
     step mounted ClickVideo = Some mounted"
  using empty_selection_noop [of mounted edits0 None]
  by (simp add: mounted_def launch_def refreshJobs_def initial_def)

subsection \<open>The list refresh and the selection\<close>

text \<open>
  C5, as stated, fails. The list refresh does not look at the selection, only at its
  \<^verbatim>\<open>resetSelection\<close> argument. First trace: a job is created while the mount's
  \<^verbatim>\<open>refreshJobs()\<close> is still in flight; the creation selects job A, and when the mount's
  list (read before the creation) arrives, the selection, which existed, is replaced by
  that list's first item, B.
  Second: \<^verbatim>\<open>refreshJobs(false)\<close> with no selection and a non-empty list leaves the selection
  empty.
\<close>

theorem refreshJobs_selection_counterexample:
  "map_option (selectedJobId \<circ> ui)
     (run mounted [ClickCreate params0, SettleJob 1 (Resolved jobA),
        SettleList 1 (Resolved [jobA, jobB])]) = Some (Some ''A'') \<and>
   map_option (selectedJobId \<circ> ui)
     (run mounted [ClickCreate params0, SettleJob 1 (Resolved jobA),
        SettleList 1 (Resolved [jobA, jobB]), SettleList 0 (Resolved [jobB])]) =
     Some (Some ''B'') \<and>
   map_option (selectedJobId \<circ> ui)
     (step (launch (refreshJobs False Halt) \<lparr>ui = initial, inflight = [], sent = []\<rparr>)
        (SettleList 0 (Resolved [jobA]))) = Some None"
  by (simp add: launch_def unpark_def handler_defs sample_defs)

text \<open>
  C5, amended. When the \<^verbatim>\<open>listJobs\<close> call of \<^verbatim>\<open>refreshJobs(resetSelection)\<close> resolves with
  any items, the job list becomes these items and nothing else changes but the selection:
  with \<^verbatim>\<open>resetSelection\<close> true and a non-empty list the selection becomes the first item's
  id, whether or not a selection existed; otherwise (\<^verbatim>\<open>resetSelection\<close> false, or an empty
  list) the selection is left as it was, empty or not.
\<close>

theorem refreshJobs_settled:
  "map_option ui (step (launch (refreshJobs resetSelection Halt) s)
       (SettleList (length (inflight s)) (Resolved items))) =
   Some ((ui s)\<lparr>jobs := items,
      selectedJobId := (if resetSelection \<and> items \<noteq> [] then Some (job_id (hd items))
                        else selectedJobId (ui s))\<rparr>)"
  by (cases items) (simp_all add: launch_def refreshJobs_def unpark_def Let_def)

theorem refreshJobs_settled_witness:
  "map_option ui (step (launch (refreshJobs True Halt) viewingA)
       (SettleList 0 (Resolved [jobB, jobA]))) =
     Some ((ui viewingA)\<lparr>jobs := [jobB, jobA], selectedJobId := Some ''B''\<rparr>) \<and>
   map_option ui (step (launch (refreshJobs False Halt) viewingA)
       (SettleList 0 (Resolved [jobB, jobA]))) =
     Some ((ui viewingA)\<lparr>jobs := [jobB, jobA]\<rparr>)"
  using refreshJobs_settled [of True viewingA "[jobB, jobA]"]
    refreshJobs_settled [of False viewingA "[jobB, jobA]"]
  by (simp add: launch_def unpark_def handler_defs sample_defs)

subsection \<open>Saving edits\<close>

text \<open>
  C3, as stated, fails: when the PATCH succeeds and the rerender POST fails, the message
  is the one shown when the PATCH itself fails.
\<close>

theorem save_partial_counterexample:
  "map_option (feedback \<circ> ui)
     (run viewingA [ClickSave edits0, SettleAck 0 (Resolved ()), SettleAck 0 Rejected]) =
     Some ''Failed to save edits.'' \<and>
   map_option (feedback \<circ> ui)
     (run viewingA [ClickSave edits0, SettleAck 0 Rejected]) =
     Some ''Failed to save edits.''"
  by (simp add: launch_def unpark_def handler_defs sample_defs)

text \<open>
  C3, amended. With a job selected, a \<^verbatim>\<open>handleSaveEdits\<close> whose PATCH succeeds and
  whose rerender POST fails leaves the message \<^verbatim>\<open>Failed to save edits.\<close>, the same message
  as when the PATCH fails; it differs from the message of the run where everything
  succeeds, \<^verbatim>\<open>Edits saved. Rerender triggered.\<close>
\<close>

theorem save_messages:
  "\<not> falsy (selectedJobId (ui s)) \<Longrightarrow>
   map_option (feedback \<circ> ui)
     (run s [ClickSave p, SettleAck (length (inflight s)) (Resolved ()),
             SettleAck (length (inflight s)) Rejected]) = Some ''Failed to save edits.'' \<and>
   map_option (feedback \<circ> ui)
     (run s [ClickSave p, SettleAck (length (inflight s)) Rejected]) =
     Some ''Failed to save edits.'' \<and>
   map_option (feedback \<circ> ui)
     (run s [ClickSave p, SettleAck (length (inflight s)) (Resolved ()),
             SettleAck (length (inflight s)) (Resolved ()),
             SettleJob (length (inflight s)) (Resolved d),
             SettleList (length (inflight s)) (Resolved items)]) =
     Some ''Edits saved. Rerender triggered.''"
  by (cases items)
    (simp_all add: handleSaveEdits_def saveFailed_def refreshJobs_def launch_def unpark_def)

theorem save_messages_witness:
  "\<not> falsy (selectedJobId (ui viewingA)) \<and>
   map_option (feedback \<circ> ui)
     (run viewingA [ClickSave edits0, SettleAck 0 (Resolved ()), SettleAck 0 Rejected]) =
     Some ''Failed to save edits.'' \<and>
   map_option (feedback \<circ> ui)
     (run viewingA [ClickSave edits0, SettleAck 0 (Resolved ()), SettleAck 0 (Resolved ()),
        SettleJob 0 (Resolved jobA'), SettleList 0 (Resolved [jobA', jobB])]) =
     Some ''Edits saved. Rerender triggered.''"
proof -
  have sel: "\<not> falsy (selectedJobId (ui viewingA))"
    by (simp add: viewingA_def falsy_def)
  show ?thesis
    using sel save_messages [OF sel, of edits0 jobA' "[jobA', jobB]"]
    by (simp add: launch_def unpark_def handler_defs sample_defs)
qed

subsection \<open>Creating a job\<close>

text \<open>
  C4, as stated, fails: after a successful creation the log of requests ends with a
  detail fetch for the job just created, issued by the effect on \<^verbatim>\<open>[selectedJobId]\<close>.
\<close>

theorem create_fetch_counterexample:
  "map_option sent
     (run mounted [SettleList 0 (Resolved []), ClickCreate params0,
        SettleJob 0 (Resolved jobA), SettleList 0 (Resolved [jobA])]) =
     Some [ListJobs, CreateJob params0, ListJobs, FetchJob ''A'']"
  by (simp add: launch_def unpark_def handler_defs sample_defs)

text \<open>
  C4, amended. After a successful \<^verbatim>\<open>handleCreateJob\<close> (the creation and the list refresh
  both resolve, nothing else happening in between) the job list is the refreshed list,
  the refresh itself has not touched the selection, the created job is the selection and
  \<^verbatim>\<open>selectedJob\<close> is the creation response. The requests sent are the creation, the list
  refresh and, whenever the new id is non-empty and differs from the selection before,
  one detail fetch for the new job.
\<close>

theorem create_seeds_and_fetches:
  "map_option ui (run s [ClickCreate p, SettleJob (length (inflight s)) (Resolved j),
       SettleList (length (inflight s)) (Resolved items)]) =
     Some ((ui s)\<lparr>jobs := items, selectedJobId := Some (job_id j), selectedJob := Some j,
        feedback := ''Job created. Script generation started.'', loading := False\<rparr>) \<and>
   map_option sent (run s [ClickCreate p, SettleJob (length (inflight s)) (Resolved j),
       SettleList (length (inflight s)) (Resolved items)]) =
     Some (sent s @ [CreateJob p, ListJobs] @
       (if selectedJobId (ui s) \<noteq> Some (job_id j) \<and> job_id j \<noteq> []
        then [FetchJob (job_id j)] else []))"
  by (cases items)
    (auto simp add: handleCreateJob_def refreshJobs_def selectionEffect_def falsy_def
      launch_def unpark_def Let_def)

theorem create_seeds_and_fetches_witness:
  "map_option ui (run viewingA [ClickCreate params0, SettleJob 0 (Resolved jobB'),
       SettleList 0 (Resolved [jobB', jobA])]) =
     Some ((ui viewingA)\<lparr>jobs := [jobB', jobA], selectedJobId := Some ''B'',
        selectedJob := Some jobB',
        feedback := ''Job created. Script generation started.'', loading := False\<rparr>) \<and>
   map_option sent (run viewingA [ClickCreate params0, SettleJob 0 (Resolved jobB'),
       SettleList 0 (Resolved [jobB', jobA])]) =
     Some [ListJobs, FetchJob ''A'', CreateJob params0, ListJobs, FetchJob ''B'']"
  using create_seeds_and_fetches [of viewingA params0 jobB' "[jobB', jobA]"]
  by (simp add: launch_def unpark_def handler_defs sample_defs)

subsection \<open>A detail fetch that resolves after the selection has moved\<close>

text \<open>
  C2, as stated, fails: the list arrives and selects A, the user selects B, B's fetch
  resolves, then A's fetch resolves. The selection is B and \<^verbatim>\<open>selectedJob\<close> is A's data.
\<close>

theorem stale_fetch_counterexample:
  "map_option (selectedJobId \<circ> ui)
     (run mounted [SettleList 0 (Resolved [jobA, jobB]), Select ''B'',
        SettleJob 1 (Resolved jobB), SettleJob 0 (Resolved jobA)]) = Some (Some ''B'') \<and>
   map_option (selectedJob \<circ> ui)
     (run mounted [SettleList 0 (Resolved [jobA, jobB]), Select ''B'',
        SettleJob 1 (Resolved jobB), SettleJob 0 (Resolved jobA)]) = Some (Some jobA) \<and>
   jobA \<noteq> jobB"
  by (simp add: launch_def unpark_def handler_defs sample_defs)

text \<open>
  C2, amended. A detail fetch for job A that is in flight when the selection changes to
  B is not discarded: when it resolves, its data is written into \<^verbatim>\<open>selectedJob\<close> without
  any comparison with the current selection. If it resolves after B's fetch,
  \<^verbatim>\<open>selectedJob\<close> is A's data while \<^verbatim>\<open>selectedJobId\<close> is B. This holds for the fetch of the
  selection effect (first part) and for the fetch of a poll tick (second part).
\<close>

theorem stale_fetch_applied:
  "(a \<noteq> [] \<and> b \<noteq> [] \<and> a \<noteq> b \<and> selectedJobId (ui s) \<noteq> Some a \<longrightarrow>
      map_option ui (run s [Select a, Select b,
          SettleJob (Suc (length (inflight s))) (Resolved db),
          SettleJob (length (inflight s)) (Resolved da)]) =
        Some ((ui s)\<lparr>selectedJobId := Some b, selectedJob := Some da\<rparr>)) \<and>
   (selectedJob (ui s) = Some j \<and> shouldPoll j \<and> b \<noteq> [] \<and> selectedJobId (ui s) \<noteq> Some b \<longrightarrow>
      map_option ui (run s [PollTick, Select b,
          SettleJob (Suc (length (inflight s))) (Resolved db),
          SettleJob (length (inflight s)) (Resolved da)]) =
        Some ((ui s)\<lparr>selectedJobId := Some b, selectedJob := Some da\<rparr>))"
proof (cases "selectedJobId (ui s) = Some b")
  case True
  then show ?thesis
    by (simp add: selectionEffect_def pollTick_def refreshJobs_def falsy_def launch_def
        unpark_def Let_def nth_append)
next
  case False
  then have "Some b \<noteq> selectedJobId (ui s)"
    by auto
  then show ?thesis
    by (simp add: selectionEffect_def pollTick_def refreshJobs_def falsy_def launch_def
        unpark_def Let_def nth_append)
qed

theorem stale_fetch_applied_witness:
  "selectedJobId (ui viewingA) \<noteq> Some ''B'' \<and> selectedJobId (ui mounted) \<noteq> Some ''A'' \<and>
   selectedJob (ui viewingA) = Some jobA \<and> shouldPoll jobA \<and>
   map_option ui (run mounted [Select ''A'', Select ''B'',
       SettleJob 2 (Resolved jobB), SettleJob 1 (Resolved jobA)]) =
     Some ((ui mounted)\<lparr>selectedJobId := Some ''B'', selectedJob := Some jobA\<rparr>) \<and>
   map_option ui (run viewingA [PollTick, Select ''B'',
       SettleJob 1 (Resolved jobB), SettleJob 0 (Resolved jobA')]) =
     Some ((ui viewingA)\<lparr>selectedJobId := Some ''B'', selectedJob := Some jobA'\<rparr>)"
  using stale_fetch_applied [of "''A''" "''B''" mounted jobB jobA]
    stale_fetch_applied [of "''A''" "''B''" viewingA jobB jobA' jobA]
  by (simp add: launch_def unpark_def handler_defs sample_defs shouldPoll_def
      pendingStates_def processingStates_def)

subsection \<open>The detail snapshot and the job list\<close>

text \<open>
  C6, as stated, fails: after a poll tick has applied a snapshot of job A with status
  processing, the list's entry for A still has status queued.
\<close>

theorem list_detail_counterexample:
  "map_option (activeJob \<circ> ui)
     (run mounted [SettleList 0 (Resolved [jobA, jobB]), SettleJob 0 (Resolved jobA),
        PollTick, SettleJob 0 (Resolved jobA')]) = Some (Some jobA) \<and>
   map_option (selectedJob \<circ> ui)
     (run mounted [SettleList 0 (Resolved [jobA, jobB]), SettleJob 0 (Resolved jobA),
        PollTick, SettleJob 0 (Resolved jobA')]) = Some (Some jobA') \<and>
   status jobA = ''queued'' \<and> status jobA' = ''processing''"
  by (simp add: launch_def unpark_def handler_defs sample_defs activeJob_def shouldPoll_def
      pendingStates_def processingStates_def)

text \<open>
  C6, amended. When a poll tick or \<^verbatim>\<open>handleRefresh\<close> applies a fetched snapshot, only
  \<^verbatim>\<open>selectedJob\<close> is replaced: the job list is what it was, and a \<^verbatim>\<open>listJobs\<close> request has
  been sent. The list is replaced, as a whole, by the items of that response when it
  resolves; until then the list and the detail view may show different statuses.
\<close>

theorem detail_then_list:
  "(selectedJob (ui s) = Some j \<and> shouldPoll j \<longrightarrow>
      map_option ui (run s [PollTick, SettleJob (length (inflight s)) (Resolved d)]) =
        Some ((ui s)\<lparr>selectedJob := Some d\<rparr>) \<and>
      map_option sent (run s [PollTick, SettleJob (length (inflight s)) (Resolved d)]) =
        Some (sent s @ [FetchJob (job_id j), ListJobs]) \<and>
      map_option ui (run s [PollTick, SettleJob (length (inflight s)) (Resolved d),
          SettleList (length (inflight s)) (Resolved items)]) =
        Some ((ui s)\<lparr>selectedJob := Some d, jobs := items\<rparr>)) \<and>
   (selectedJobId (ui s) = Some i \<and> i \<noteq> [] \<longrightarrow>
      map_option ui (run s [ClickRefresh, SettleJob (length (inflight s)) (Resolved d)]) =
        Some ((ui s)\<lparr>selectedJob := Some d, refreshing := True\<rparr>) \<and>
      map_option sent (run s [ClickRefresh, SettleJob (length (inflight s)) (Resolved d)]) =
        Some (sent s @ [FetchJob i, ListJobs]) \<and>
      map_option ui (run s [ClickRefresh, SettleJob (length (inflight s)) (Resolved d),
          SettleList (length (inflight s)) (Resolved items)]) =
        Some ((ui s)\<lparr>selectedJob := Some d, jobs := items, refreshing := False\<rparr>))"
  by (cases items)
    (simp_all add: pollTick_def handleRefresh_def refreshJobs_def falsy_def launch_def
      unpark_def Let_def)

theorem detail_then_list_witness:
  "selectedJob (ui viewingA) = Some jobA \<and> shouldPoll jobA \<and>
   selectedJobId (ui viewingA) = Some ''A'' \<and>
   map_option (jobs \<circ> ui) (run viewingA [PollTick, SettleJob 0 (Resolved jobA')]) =
     Some [jobA, jobB] \<and>
   map_option (jobs \<circ> ui) (run viewingA [PollTick, SettleJob 0 (Resolved jobA'),
       SettleList 0 (Resolved [jobA', jobB])]) = Some [jobA', jobB] \<and>
   map_option (jobs \<circ> ui) (run viewingA [ClickRefresh, SettleJob 0 (Resolved jobA')]) =
     Some [jobA, jobB] \<and>
   map_option sent (run viewingA [ClickRefresh, SettleJob 0 (Resolved jobA')]) =
     Some [ListJobs, FetchJob ''A'', FetchJob ''A'', ListJobs]"
  using detail_then_list [of viewingA jobA jobA' "[jobA', jobB]" "''A''"]
  by (simp add: launch_def unpark_def handler_defs sample_defs shouldPoll_def
      pendingStates_def processingStates_def)

subsection \<open>Refreshing twice\<close>

text \<open>What one call of \<^verbatim>\<open>handleRefresh\<close> against a fixed server leaves, in closed form.\<close>

lemma refresh_result:
  "refresh (Suc (Suc m)) srv s =
     Some (if falsy (selectedJobId (ui s)) then s
           else (case on_job srv (FetchJob (the (selectedJobId (ui s)))) of
                   Rejected \<Rightarrow>
                     s\<lparr>ui := (ui s)\<lparr>feedback := ''Failed to refresh job.'',
                            refreshing := False\<rparr>,
                       sent := sent s @ [FetchJob (the (selectedJobId (ui s)))]\<rparr>
                 | Resolved d \<Rightarrow>
                     (case on_list srv ListJobs of
                        Rejected \<Rightarrow>
                          s\<lparr>ui := (ui s)\<lparr>selectedJob := Some d,
                                 feedback := ''Unable to load jobs from the API.'',
                                 refreshing := False\<rparr>,
                            sent := sent s @ [FetchJob (the (selectedJobId (ui s))), ListJobs]\<rparr>
                      | Resolved items \<Rightarrow>
                          s\<lparr>ui := (ui s)\<lparr>selectedJob := Some d, jobs := items,
                                 refreshing := False\<rparr>,
                            sent := sent s @ [FetchJob (the (selectedJobId (ui s))), ListJobs]\<rparr>)))"
proof (cases "falsy (selectedJobId (ui s))")
  case True
  then show ?thesis
    by (simp add: refresh_def handleRefresh_def launch_def)
next
  case False
  show ?thesis
  proof (cases "on_job srv (FetchJob (the (selectedJobId (ui s))))")
    case Rejected
    with False show ?thesis
      by (simp add: refresh_def handleRefresh_def launch_def unpark_def)
  next
    case job: (Resolved d)
    show ?thesis
    proof (cases "on_list srv ListJobs")
      case Rejected
      with False job show ?thesis
        by (simp add: refresh_def handleRefresh_def refreshJobs_def launch_def unpark_def)
    next
      case (Resolved items)
      with False job show ?thesis
        by (cases items)
          (simp_all add: refresh_def handleRefresh_def refreshJobs_def launch_def unpark_def)
    qed
  qed
qed

text \<open>
  C7. Against a server whose state does not change, a call of \<^verbatim>\<open>handleRefresh\<close> runs to
  its end (two settled requests at most, so any fuel from 2 on is enough), and a second
  call right after the first leaves the same \<^verbatim>\<open>selectedJob\<close>, indeed the same value in every
  state cell, as the first.
\<close>

theorem refresh_twice:
  assumes "2 \<le> fuel"
  shows "refresh fuel srv s \<noteq> None \<and>
     map_option ui (Option.bind (refresh fuel srv s) (refresh fuel srv)) =
       map_option ui (refresh fuel srv s) \<and>
     map_option (selectedJob \<circ> ui) (Option.bind (refresh fuel srv s) (refresh fuel srv)) =
       map_option (selectedJob \<circ> ui) (refresh fuel srv s)"
proof -
  from assms obtain m where m: "fuel = Suc (Suc m)"
    by (metis Suc_le_D numeral_2_eq_2 Suc_le_mono)
  have some: "refresh fuel srv s \<noteq> None"
    unfolding m refresh_result by simp
  have same: "map_option ui (Option.bind (refresh fuel srv s) (refresh fuel srv)) =
      map_option ui (refresh fuel srv s)"
    unfolding m refresh_result
    by (simp add: falsy_def split: option.splits outcome.splits)
  have job: "map_option (selectedJob \<circ> ui)
        (Option.bind (refresh fuel srv s) (refresh fuel srv)) =
      map_option (selectedJob \<circ> ui) (refresh fuel srv s)"
    using arg_cong [OF same, of "map_option selectedJob"]
    by (simp only: option.map_comp)
  from some same job show ?thesis
    by blast
qed

theorem refresh_twice_witness:
  "(2::nat) \<le> 2 \<and> refresh 2 server0 viewingA \<noteq> None \<and>
   map_option (selectedJob \<circ> ui) (refresh 2 server0 viewingA) = Some (Some jobA') \<and>
   map_option (selectedJob \<circ> ui)
     (Option.bind (refresh 2 server0 viewingA) (refresh 2 server0)) = Some (Some jobA')"
proof -
  have two: "(2::nat) \<le> 2"
    by simp
  have r: "map_option (selectedJob \<circ> ui) (refresh 2 server0 viewingA) = Some (Some jobA')"
    by (simp add: numeral_2_eq_2 refresh_def launch_def unpark_def handler_defs sample_defs)
  show ?thesis
    using two r refresh_twice [OF two, of server0 viewingA] by simp
qed

section \<open>Properties of the audio preview\<close>

lemma held_ok_step:
  assumes ok: "held_ok s"
  shows "held_ok (details_step s e)"
proof (cases e)
  case (Render job)
  with ok show ?thesis
    by (cases job)
      (auto simp: held_ok_def audioEffect_def cleanup_def audioDeps_def Let_def
        split: option.splits)
next
  case (ArtifactResolved r)
  with ok show ?thesis
    by (auto simp: held_ok_def less_Suc_eq dest: notin_set_remove1)
next
  case (ArtifactRejected r)
  with ok show ?thesis
    by (auto simp: held_ok_def dest: notin_set_remove1)
qed

lemma held_ok_run: "held_ok s \<Longrightarrow> held_ok (details_run s es)"
  unfolding details_run_def
  by (induction es arbitrary: s) (simp_all add: held_ok_step)

lemma held_ok_mounted: "held_ok details_mounted"
  by (simp add: held_ok_def details_mounted_def)

lemma released_step: "released h s \<Longrightarrow> released h (details_step s e)"
  by (cases e) (auto simp: released_def audioEffect_def cleanup_def Let_def split: option.splits)

lemma released_run: "released h s \<Longrightarrow> released h (details_run s es)"
  unfolding details_run_def
  by (induction es arbitrary: s) (simp_all add: released_step)

lemma orphaned_step: "orphaned h s \<Longrightarrow> orphaned h (details_step s e)"
  by (cases e) (auto simp: orphaned_def audioEffect_def cleanup_def Let_def split: option.splits)

lemma orphaned_run: "orphaned h s \<Longrightarrow> orphaned h (details_run s es)"
  unfolding details_run_def
  by (induction es arbitrary: s) (simp_all add: orphaned_step)

lemma details_run_append:
  "details_run s (es @ es') = details_run (details_run s es) es'"
  by (simp add: details_run_def)

lemma release_on_transition:
  assumes "held_ok s" "objectUrl s = Some h"
    and "map_option audio_status job \<noteq> Some ''completed''"
  shows "released h (details_step s (Render job))"
    and "revoked (details_step s (Render job)) = revoked s @ [h]"
proof -
  have "audioDeps job \<noteq> deps s"
    using assms by (cases "deps s") (auto simp: held_ok_def audioDeps_def)
  with assms show "released h (details_step s (Render job))"
    and "revoked (details_step s (Render job)) = revoked s @ [h]"
    by (auto simp: held_ok_def released_def audioEffect_def cleanup_def Let_def
        count_list_0_iff)
qed

text \<open>
  The handle that the current run of the effect has obtained (its fetch resolved before
  the status moved) is revoked once, at the transition, and never again.
\<close>

lemma current_handle_revoked_once:
  assumes "s = details_run details_mounted es"
    and "objectUrl s = Some h"
    and "map_option audio_status job \<noteq> Some ''completed''"
  shows "snd (deps s) = Some ''completed'' \<and> count_list (revoked s) h = 0 \<and>
     revoked (details_step s (Render job)) = revoked s @ [h] \<and>
     count_list (revoked (details_run (details_step s (Render job)) es')) h = 1"
proof -
  have ok: "held_ok s"
    using assms(1) held_ok_run [OF held_ok_mounted] by simp
  have "released h (details_run (details_step s (Render job)) es')"
    using release_on_transition(1) [OF ok assms(2,3)] by (rule released_run)
  then show ?thesis
    using ok assms(2) release_on_transition(2) [OF ok assms(2,3)]
    by (simp add: released_def held_ok_def count_list_0_iff)
qed

lemma current_handle_revoked_once_witness:
  "objectUrl (details_run details_mounted [Render (Some jobD), ArtifactResolved 1]) = Some 0 \<and>
   map_option audio_status (Some jobD') \<noteq> Some ''completed'' \<and>
   count_list (revoked (details_run (details_step
       (details_run details_mounted [Render (Some jobD), ArtifactResolved 1])
       (Render (Some jobD'))) [Render (Some jobD), ArtifactResolved 3, Render None])) 0 = 1"
proof -
  have h: "objectUrl (details_run details_mounted [Render (Some jobD), ArtifactResolved 1]) =
      Some 0"
    by (simp add: details_run_def details_mounted_def audioEffect_def cleanup_def
        audioDeps_def jobD_def Let_def)
  have t: "map_option audio_status (Some jobD') \<noteq> Some ''completed''"
    by (simp add: jobD'_def)
  show ?thesis
    using h t current_handle_revoked_once [OF refl h t] by simp
qed

text \<open>
  C8 fails on the code when a fetch resolves after the cleanup of its run. The panel
  shows job B (audio completed) and starts fetching its audio; the user looks at job D
  and comes back to B before that fetch settles, so a third run of the effect is
  fetching B's audio again; the first fetch then resolves: its URL, number 0, is stored
  in \<^verbatim>\<open>audioUrl\<close> and played, but the variable it was assigned to belongs to a run whose
  cleanup is over. When B's audio status then moves from completed to processing, the
  cleanup that runs is the third run's, whose \<^verbatim>\<open>objectUrl\<close> is still undefined: nothing is
  revoked, and whatever happens afterwards (\<open>es\<close>) URL 0 is never revoked.
\<close>

theorem stale_audio_handle_leaked:
  "audioUrl (details_run details_mounted
      [Render (Some jobB), Render (Some jobD), Render (Some jobB), ArtifactResolved 1]) =
     Some 0 \<and>
   deps (details_run details_mounted
      [Render (Some jobB), Render (Some jobD), Render (Some jobB), ArtifactResolved 1]) =
     (Some ''B'', Some ''completed'') \<and>
   job_id jobB' = ''B'' \<and> audio_status jobB' = ''processing'' \<and>
   count_list (revoked (details_run details_mounted
      ([Render (Some jobB), Render (Some jobD), Render (Some jobB), ArtifactResolved 1,
        Render (Some jobB')] @ es))) 0 = 0"
proof -
  let ?t = "[Render (Some jobB), Render (Some jobD), Render (Some jobB), ArtifactResolved 1]"
  have st: "details_run details_mounted ?t =
      \<lparr>audioUrl = Some 0, deps = (Some ''B'', Some ''completed''), objectUrl = None,
       effect_run = 3, fetching = [2, 3], blobs = 1, revoked = []\<rparr>"
    by (simp add: details_run_def details_mounted_def audioEffect_def cleanup_def
        audioDeps_def jobB_def jobD_def Let_def numeral_2_eq_2 numeral_3_eq_3)
  have "orphaned 0 (details_run details_mounted (?t @ [Render (Some jobB')]))"
    unfolding details_run_append st
    by (simp add: details_run_def orphaned_def audioEffect_def cleanup_def audioDeps_def
        jobB'_def Let_def)
  then have "orphaned 0 (details_run details_mounted ((?t @ [Render (Some jobB')]) @ es))"
    unfolding details_run_append [of _ "?t @ [Render (Some jobB')]" es] by (rule orphaned_run)
  then show ?thesis
    using st by (simp add: orphaned_def count_list_0_iff jobB'_def)
qed

end
